theory Spec2Isabelle
  imports Complex_Main "HOL-Library.Sublist"
begin

section \<open>Values shared by the proxy endpoint and the dashboard view\<close>

text \<open>
  Strings are byte lists (\<^typ>\<open>string\<close>); the Korean literals of the view are given by their
  UTF-8 bytes. No claim depends on the length of a string, only on emptiness and equality.
  A number decoded from JSON is a finite double (no NaN), kept as the \<^typ>\<open>real\<close> number
  it stands for; the provider's status field \<open>cod\<close> is modelled as an integer.
\<close>

subsection \<open>The payload type \<open>WeatherData\<close> (weather.ts, lines 3-10)\<close>

record condition =
  description :: string
  icon :: string

record measurements =
  wd_temp :: real
  wd_feels_like :: real
  wd_humidity :: real

text \<open>
  \<open>cod\<close> and \<open>message\<close> are options: \<open>None\<close> is JavaScript's \<open>undefined\<close>, the value
  of a field that the parsed body does not carry.
\<close>

record weather_data =
  wd_name :: string
  wd_weather :: "condition list"
  wd_main :: measurements
  wd_wind_speed :: real
  cod :: "int option"
  message :: "string option"

subsection \<open>Number to string, as a template literal renders an integer\<close>

text \<open>Decimal digits, with a minus sign for a negative number.\<close>

fun nat_to_string :: "nat \<Rightarrow> string" where
  "nat_to_string n =
     (if n < 10 then [''0123456789'' ! n]
      else nat_to_string (n div 10) @ [''0123456789'' ! (n mod 10)])"

declare nat_to_string.simps [simp del]

definition number_to_string :: "int \<Rightarrow> string" where
  "number_to_string i =
     (if i < 0 then CHR ''-'' # nat_to_string (nat (- i)) else nat_to_string (nat i))"

subsection \<open>Double arithmetic\<close>

text \<open>
  A JavaScript number is an IEEE 754 double. A double is kept as the real number it stands
  for, and every arithmetic operation gives the exact result rounded to the nearest double,
  a tie going to the even significand. \<open>double\<close> is that rounding: \<open>e\<close> is the binary
  exponent of \<open>x\<close>, and the significand, \<open>x\<close> scaled by \<open>2 ^ (52 - e)\<close>, is rounded to an
  integer of 53 bits. The exponent is not bounded: overflow and subnormal numbers are left
  out, and neither arises from the sums, quotients and products on finite temperatures below.
\<close>

definition round_even :: "real \<Rightarrow> int" where
  "round_even x =
     (let n = \<lfloor>x\<rfloor>; f = x - of_int n in
      if f < 1 / 2 then n
      else if 1 / 2 < f then n + 1
      else if even n then n else n + 1)"

definition double :: "real \<Rightarrow> real" where
  "double x =
     (if x = 0 then 0
      else (let e = \<lfloor>log 2 \<bar>x\<bar>\<rfloor> in
            of_int (round_even (x * 2 powr (52 - e))) * 2 powr (e - 52)))"

subsection \<open>Exceptions\<close>

text \<open>
  What a \<open>try\<close> block of the repository can throw: a rejected fetch, a body that
  \<open>json()\<close> cannot parse, a field read from \<open>null\<close>, and a status that the server refuses
  to send.
\<close>

datatype js_error = Network_error | Syntax_error | Type_error | Range_error

section \<open>The proxy endpoint (pages/api/weather.ts)\<close>

subsection \<open>Request and response\<close>

text \<open>
  A value of \<open>req.query\<close> is a string or an array of strings (a repeated parameter); the
  query itself is a dictionary, where a missing key reads as \<open>undefined\<close>.
\<close>

datatype qparam = QStr string | QArr "string list"

type_synonym query = "string \<rightharpoonup> qparam"

text \<open>What \<open>res.status(c).json(b)\<close> was called with.\<close>

datatype resp_body = Message string | Data weather_data

record response =
  status :: int
  body :: resp_body

text \<open>
  What \<open>await fetch(url)\<close> followed by \<open>await response.json()\<close> gives: the fetch rejects
  (network failure), the body is not JSON and \<open>json()\<close> rejects, the body is the JSON value
  \<open>null\<close> (reading \<open>data.cod\<close> then throws), or the body is an object.
\<close>

datatype upstream_result =
    Fetch_rejected
  | Json_rejected
  | Json_null
  | Json_object weather_data

text \<open>The reply of one invocation, and the urls it fetched, in order.\<close>

record exchange =
  reply :: response
  fetched :: "string list"

subsection \<open>JavaScript truthiness, \<open>typeof\<close> and string conversion of a query value\<close>

fun truthy :: "qparam option \<Rightarrow> bool" where
  "truthy None = False"
| "truthy (Some (QStr s)) = (s \<noteq> [])"
| "truthy (Some (QArr xs)) = True"

fun is_string :: "qparam option \<Rightarrow> bool" where
  "is_string (Some (QStr s)) = True"
| "is_string _ = False"

fun js_join :: "string list \<Rightarrow> string" where
  "js_join [] = []"
| "js_join [x] = x"
| "js_join (x # y # ys) = x @ '','' @ js_join (y # ys)"

fun to_string :: "qparam option \<Rightarrow> string" where
  "to_string None = ''undefined''"
| "to_string (Some (QStr s)) = s"
| "to_string (Some (QArr xs)) = js_join xs"

subsection \<open>Choosing and building the upstream request (lines 23-30)\<close>

text \<open>
  The two branches that assign \<open>url\<close> are kept apart by a tag, so that a theorem can say
  which branch built the url; \<open>url_of\<close> holds the two template literals.
\<close>

datatype upstream_query = By_coords string string | By_city string

text \<open>The condition of line 24, and that of line 26.\<close>

definition coordinate_pair :: "query \<Rightarrow> bool" where
  "coordinate_pair q =
     (let lat = q ''lat''; lon = q ''lon'' in
      truthy lat \<and> truthy lon \<and> is_string lat \<and> is_string lon)"

definition city_name :: "query \<Rightarrow> bool" where
  "city_name q = (let city = q ''city'' in truthy city \<and> is_string city)"

definition select_query :: "query \<Rightarrow> upstream_query option" where
  "select_query q =
     (if coordinate_pair q
        then Some (By_coords (to_string (q ''lat'')) (to_string (q ''lon'')))
      else if city_name q
        then Some (By_city (to_string (q ''city'')))
      else None)"

fun url_of :: "string \<Rightarrow> upstream_query \<Rightarrow> string" where
  "url_of apiKey (By_coords lat lon) =
     ''https://api.openweathermap.org/data/2.5/weather?lat='' @ lat @ ''&lon='' @ lon
       @ ''&appid='' @ apiKey @ ''&units=metric&lang=kr''"
| "url_of apiKey (By_city city) =
     ''https://api.openweathermap.org/data/2.5/weather?q='' @ city
       @ ''&appid='' @ apiKey @ ''&units=metric&lang=kr''"

subsection \<open>Relaying the upstream answer (lines 32-45)\<close>

definition network_issue :: response where
  "network_issue = \<lparr>status = 500, body = Message ''Internal Server Error or Network Issue''\<rparr>"

definition provider_message :: "weather_data \<Rightarrow> int \<Rightarrow> string" where
  "provider_message d c =
     (case message d of
        Some m \<Rightarrow> if m \<noteq> [] then m else ''OpenWeatherMap API Error: '' @ number_to_string c
      | None \<Rightarrow> ''OpenWeatherMap API Error: '' @ number_to_string c)"

text \<open>
  \<open>res.status(c).json(b)\<close>: the reply is written when \<open>c\<close> is a status the server can
  send, from 100 to 999; for any other \<open>c\<close> writing the head throws and nothing is sent.
\<close>

definition send :: "int \<Rightarrow> resp_body \<Rightarrow> js_error + response" where
  "send c b = (if 100 \<le> c \<and> c \<le> 999 then Inr \<lparr>status = c, body = b\<rparr> else Inl Range_error)"

text \<open>The body of the \<open>try\<close> block (lines 33-40), given what the fetch and \<open>json()\<close> gave.\<close>

fun try_relay :: "upstream_result \<Rightarrow> js_error + response" where
  "try_relay Fetch_rejected = Inl Network_error"
| "try_relay Json_rejected = Inl Syntax_error"
| "try_relay Json_null = Inl Type_error"
| "try_relay (Json_object d) =
     (case cod d of
        Some c \<Rightarrow>
          if c \<noteq> 0 \<and> c \<noteq> 200
          then send c (Message (provider_message d c))
          else send 200 (Data d)
      | None \<Rightarrow> send 200 (Data d))"

text \<open>The \<open>catch\<close> of lines 42-45 answers every exception of the block in the same way.\<close>

definition relay :: "upstream_result \<Rightarrow> response" where
  "relay r = (case try_relay r of Inl e \<Rightarrow> network_issue | Inr resp \<Rightarrow> resp)"

subsection \<open>The handler (lines 12-46)\<close>

text \<open>
  \<open>apiKey\<close> is \<open>process.env.OPENWEATHER_API_KEY\<close> (\<open>None\<close> when the variable is not set);
  \<open>upstream\<close> is the provider, as a function of the url fetched.
\<close>

definition handler ::
  "string option \<Rightarrow> query \<Rightarrow> (string \<Rightarrow> upstream_result) \<Rightarrow> exchange" where
  "handler apiKey q upstream =
     (case apiKey of
        None \<Rightarrow> \<lparr>reply = \<lparr>status = 500, body = Message ''API Key not configured''\<rparr>, fetched = []\<rparr>
      | Some k \<Rightarrow>
          if k = [] then
            \<lparr>reply = \<lparr>status = 500, body = Message ''API Key not configured''\<rparr>, fetched = []\<rparr>
          else
            (case select_query q of
               None \<Rightarrow>
                 \<lparr>reply = \<lparr>status = 400,
                     body = Message ''City or latitude/longitude query parameters are required''\<rparr>,
                  fetched = []\<rparr>
             | Some uq \<Rightarrow>
                 \<lparr>reply = relay (upstream (url_of k uq)), fetched = [url_of k uq]\<rparr>))"

section \<open>The dashboard view (pages/index.tsx)\<close>

subsection \<open>The string literals of the view\<close>

definition utf8 :: "nat list \<Rightarrow> string" where
  "utf8 bytes = map char_of bytes"

text \<open>Line 33: fetching the weather for the position failed.\<close>

definition coords_failed :: string where
  "coords_failed = utf8
     [0xEC, 0x9C, 0x84, 0xEC, 0xB9, 0x98, 0x20, 0xEA, 0xB8, 0xB0, 0xEB, 0xB0, 0x98, 0x20,
      0xEB, 0x82, 0xA0, 0xEC, 0x94, 0xA8, 0x20, 0xEC, 0xA0, 0x95, 0xEB, 0xB3, 0xB4, 0xEB,
      0xA5, 0xBC, 0x20, 0xEA, 0xB0, 0x80, 0xEC, 0xA0, 0xB8, 0xEC, 0x98, 0xA4, 0xEB, 0x8A,
      0x94, 0xEB, 0x8D, 0xB0, 0x20, 0xEC, 0x8B, 0xA4, 0xED, 0x8C, 0xA8, 0xED, 0x96, 0x88,
      0xEC, 0x8A, 0xB5, 0xEB, 0x8B, 0x88, 0xEB, 0x8B, 0xA4, 0x2E]"

text \<open>Line 57: fetching the weather for the city name failed.\<close>

definition city_failed :: string where
  "city_failed = utf8
     [0xEB, 0x8F, 0x84, 0xEC, 0x8B, 0x9C, 0x20, 0xEC, 0x9D, 0xB4, 0xEB, 0xA6, 0x84, 0xEC,
      0x9C, 0xBC, 0xEB, 0xA1, 0x9C, 0x20, 0xEB, 0x82, 0xA0, 0xEC, 0x94, 0xA8, 0x20, 0xEC,
      0xA0, 0x95, 0xEB, 0xB3, 0xB4, 0xEB, 0xA5, 0xBC, 0x20, 0xEA, 0xB0, 0x80, 0xEC, 0xA0,
      0xB8, 0xEC, 0x98, 0xA4, 0xEB, 0x8A, 0x94, 0xEB, 0x8D, 0xB0, 0x20, 0xEC, 0x8B, 0xA4,
      0xED, 0x8C, 0xA8, 0xED, 0x96, 0x88, 0xEC, 0x8A, 0xB5, 0xEB, 0x8B, 0x88, 0xEB, 0x8B,
      0xA4, 0x2E]"

text \<open>Lines 37 and 61: an unexpected error happened while fetching the weather.\<close>

definition unexpected_error :: string where
  "unexpected_error = utf8
     [0xEB, 0x82, 0xA0, 0xEC, 0x94, 0xA8, 0x20, 0xEC, 0xA0, 0x95, 0xEB, 0xB3, 0xB4, 0xEB,
      0xA5, 0xBC, 0x20, 0xEA, 0xB0, 0x80, 0xEC, 0xA0, 0xB8, 0xEC, 0x98, 0xA4, 0xEB, 0x8A,
      0x94, 0x20, 0xEC, 0xA4, 0x91, 0x20, 0xEC, 0x98, 0x88, 0xEC, 0x83, 0x81, 0xEC, 0xB9,
      0x98, 0x20, 0xEB, 0xAA, 0xBB, 0xED, 0x95, 0x9C, 0x20, 0xEC, 0x98, 0xA4, 0xEB, 0xA5,
      0x98, 0xEA, 0xB0, 0x80, 0x20, 0xEB, 0xB0, 0x9C, 0xEC, 0x83, 0x9D, 0xED, 0x96, 0x88,
      0xEC, 0x8A, 0xB5, 0xEB, 0x8B, 0x88, 0xEB, 0x8B, 0xA4, 0x2E]"

text \<open>Line 82: please allow access to the position.\<close>

definition permission_denied_message :: string where
  "permission_denied_message = utf8
     [0xEC, 0x9C, 0x84, 0xEC, 0xB9, 0x98, 0x20, 0xEC, 0xA0, 0x95, 0xEB, 0xB3, 0xB4, 0x20,
      0xEC, 0xA0, 0x9C, 0xEA, 0xB3, 0xB5, 0xEC, 0x9D, 0x84, 0x20, 0xED, 0x97, 0x88, 0xEC,
      0x9A, 0xA9, 0xED, 0x95, 0xB4, 0xEC, 0xA3, 0xBC, 0xEC, 0x84, 0xB8, 0xEC, 0x9A, 0x94,
      0x2E]"

text \<open>Line 85: no position is available.\<close>

definition position_unavailable_message :: string where
  "position_unavailable_message = utf8
     [0xEC, 0x82, 0xAC, 0xEC, 0x9A, 0xA9, 0x20, 0xEA, 0xB0, 0x80, 0xEB, 0x8A, 0xA5, 0xED,
      0x95, 0x9C, 0x20, 0xEC, 0x9C, 0x84, 0xEC, 0xB9, 0x98, 0x20, 0xEC, 0xA0, 0x95, 0xEB,
      0xB3, 0xB4, 0xEA, 0xB0, 0x80, 0x20, 0xEC, 0x97, 0x86, 0xEC, 0x8A, 0xB5, 0xEB, 0x8B,
      0x88, 0xEB, 0x8B, 0xA4, 0x2E]"

text \<open>Line 88: the position request timed out.\<close>

definition timeout_message :: string where
  "timeout_message = utf8
     [0xEC, 0x9C, 0x84, 0xEC, 0xB9, 0x98, 0x20, 0xEC, 0xA0, 0x95, 0xEB, 0xB3, 0xB4, 0x20,
      0xEC, 0x9A, 0x94, 0xEC, 0xB2, 0xAD, 0x20, 0xEC, 0x8B, 0x9C, 0xEA, 0xB0, 0x84, 0xEC,
      0x9D, 0xB4, 0x20, 0xEC, 0xB4, 0x88, 0xEA, 0xB3, 0xBC, 0xEB, 0x90, 0x98, 0xEC, 0x97,
      0x88, 0xEC, 0x8A, 0xB5, 0xEB, 0x8B, 0x88, 0xEB, 0x8B, 0xA4, 0x2E]"

text \<open>Line 91, up to the interpolated code: an unknown position error happened, (code: .\<close>

definition unknown_error_prefix :: string where
  "unknown_error_prefix = utf8
     [0xEC, 0x95, 0x8C, 0x20, 0xEC, 0x88, 0x98, 0x20, 0xEC, 0x97, 0x86, 0xEB, 0x8A, 0x94,
      0x20, 0xEC, 0x9C, 0x84, 0xEC, 0xB9, 0x98, 0x20, 0xEC, 0xA0, 0x95, 0xEB, 0xB3, 0xB4,
      0x20, 0xEC, 0x98, 0xA4, 0xEB, 0xA5, 0x98, 0xEA, 0xB0, 0x80, 0x20, 0xEB, 0xB0, 0x9C,
      0xEC, 0x83, 0x9D, 0xED, 0x96, 0x88, 0xEC, 0x8A, 0xB5, 0xEB, 0x8B, 0x88, 0xEB, 0x8B,
      0xA4, 0x2E, 0x20, 0x28, 0xEC, 0xBD, 0x94, 0xEB, 0x93, 0x9C, 0x3A, 0x20]"

subsection \<open>View state (lines 12-17)\<close>

text \<open>
  \<open>weather\<close> holds whatever \<open>response.json()\<close> gave (\<open>None\<close> is \<open>null\<close>): the body of a
  reply of the proxy, which is either a message or a payload.
\<close>

record view_state =
  city :: string
  weather :: "resp_body option"
  loading :: bool
  error :: "string option"
  locationLoading :: bool
  locationError :: "string option"

subsection \<open>One fetch cycle (lines 20-65)\<close>

text \<open>
  The url of a request is a template literal; an interpolated number is kept as a number.
\<close>

datatype url_part = Lit string | Num real

text \<open>
  What \<open>await fetch(url)\<close> followed by \<open>await response.json()\<close> gives in the view: the fetch
  rejects, \<open>json()\<close> rejects, or there are \<open>response.ok\<close> and the parsed body.
\<close>

datatype proxy_result =
    Request_rejected
  | Body_rejected
  | Answer bool "resp_body option"

text \<open>
  The result of one call: the state shown while the request is awaited (\<open>None\<close> when the
  call returns before awaiting anything), the state once the call has settled, and the
  requests issued.
\<close>

record cycle =
  pending :: "view_state option"
  settled :: view_state
  requested :: "url_part list list"

text \<open>\<open>data.message || fallback\<close>; reading a field of \<open>null\<close> throws.\<close>

fun message_of :: "resp_body \<Rightarrow> string option" where
  "message_of (Message m) = Some m"
| "message_of (Data d) = message d"

definition message_or :: "string \<Rightarrow> resp_body option \<Rightarrow> js_error + string" where
  "message_or fallback data =
     (case data of
        None \<Rightarrow> Inl Type_error
      | Some b \<Rightarrow>
          (case message_of b of
             Some m \<Rightarrow> if m \<noteq> [] then Inr m else Inr fallback
           | None \<Rightarrow> Inr fallback))"

text \<open>
  The body of the \<open>try\<close> block of \<open>fetchWeatherByCoords\<close> (lines 26-34). The chart
  variant of the page (lines 169-189) has the same function without the write to \<open>city\<close>.
\<close>

fun coords_try :: "proxy_result \<Rightarrow> view_state \<Rightarrow> js_error + view_state" where
  "coords_try Request_rejected st = Inl Network_error"
| "coords_try Body_rejected st = Inl Syntax_error"
| "coords_try (Answer ok data) st =
     (if ok then Inr (st\<lparr>weather := data, city := []\<rparr>)
      else (case message_or coords_failed data of
              Inl e \<Rightarrow> Inl e
            | Inr m \<Rightarrow> Inr (st\<lparr>error := Some m\<rparr>)))"

text \<open>The body of the \<open>try\<close> block of \<open>fetchWeatherByCity\<close> (lines 51-58).\<close>

fun city_try :: "proxy_result \<Rightarrow> view_state \<Rightarrow> js_error + view_state" where
  "city_try Request_rejected st = Inl Network_error"
| "city_try Body_rejected st = Inl Syntax_error"
| "city_try (Answer ok data) st =
     (if ok then Inr (st\<lparr>weather := data\<rparr>)
      else (case message_or city_failed data of
              Inl e \<Rightarrow> Inl e
            | Inr m \<Rightarrow> Inr (st\<lparr>error := Some m\<rparr>)))"

text \<open>
  \<open>catch\<close> and \<open>finally\<close>: nothing is written to the state before a throw, so the handler
  of \<open>catch\<close> runs on the state the \<open>try\<close> block started from.
\<close>

definition catch_finally :: "view_state \<Rightarrow> js_error + view_state \<Rightarrow> view_state" where
  "catch_finally st r =
     (case r of
        Inl e \<Rightarrow> st\<lparr>error := Some unexpected_error\<rparr>
      | Inr st' \<Rightarrow> st')\<lparr>loading := False\<rparr>"

text \<open>The template literals of lines 26 and 51.\<close>

definition proxy_url_by_coords :: "real \<Rightarrow> real \<Rightarrow> url_part list" where
  "proxy_url_by_coords latitude longitude =
     [Lit ''/api/weather?lat='', Num latitude, Lit ''&lon='', Num longitude]"

definition proxy_url_by_city :: "string \<Rightarrow> url_part list" where
  "proxy_url_by_city cityName = [Lit ''/api/weather?city='', Lit cityName]"

text \<open>The three writes that open a cycle (lines 21-23 and 46-48).\<close>

definition cycle_start :: "view_state \<Rightarrow> view_state" where
  "cycle_start st = st\<lparr>loading := True, error := None, weather := None\<rparr>"

definition fetchWeatherByCoords ::
  "real \<Rightarrow> real \<Rightarrow> (url_part list \<Rightarrow> proxy_result) \<Rightarrow> view_state \<Rightarrow> cycle" where
  "fetchWeatherByCoords latitude longitude net st =
     (let st1 = cycle_start st;
          url = proxy_url_by_coords latitude longitude
      in \<lparr>pending = Some st1,
          settled = catch_finally st1 (coords_try (net url) st1),
          requested = [url]\<rparr>)"

definition fetchWeatherByCity ::
  "string \<Rightarrow> (url_part list \<Rightarrow> proxy_result) \<Rightarrow> view_state \<Rightarrow> cycle" where
  "fetchWeatherByCity cityName net st =
     (if cityName = [] then \<lparr>pending = None, settled = st, requested = []\<rparr>
      else
        (let st1 = cycle_start st;
             url = proxy_url_by_city cityName
         in \<lparr>pending = Some st1,
             settled = catch_finally st1 (city_try (net url) st1),
             requested = [url]\<rparr>))"

text \<open>\<open>handleSearch\<close> (lines 106-109); \<open>e.preventDefault()\<close> does not touch the state.\<close>

definition handleSearch :: "(url_part list \<Rightarrow> proxy_result) \<Rightarrow> view_state \<Rightarrow> cycle" where
  "handleSearch net st = fetchWeatherByCity (city st) net st"

subsection \<open>The geolocation error callback (lines 76-97)\<close>

text \<open>
  The codes of \<open>GeolocationPositionError\<close> are constants of the browser platform
  (W3C Geolocation): 1, 2 and 3.
\<close>

definition PERMISSION_DENIED :: int where "PERMISSION_DENIED = 1"
definition POSITION_UNAVAILABLE :: int where "POSITION_UNAVAILABLE = 2"
definition TIMEOUT :: int where "TIMEOUT = 3"

text \<open>
  The \<open>switch\<close> on \<open>err.code\<close>. The initial value of \<open>errorMessage\<close> (line 78) is overwritten
  by every branch and does not appear.
\<close>

definition geolocation_error_message :: "int \<Rightarrow> string" where
  "geolocation_error_message code =
     (if code = PERMISSION_DENIED then permission_denied_message
      else if code = POSITION_UNAVAILABLE then position_unavailable_message
      else if code = TIMEOUT then timeout_message
      else unknown_error_prefix @ number_to_string code @ '')'')"

definition on_geolocation_error :: "int \<Rightarrow> view_state \<Rightarrow> view_state" where
  "on_geolocation_error code st =
     st\<lparr>locationError := Some (geolocation_error_message code), locationLoading := False\<rparr>"

subsection \<open>Temperature as a percentage of the range (chart variant, lines 228-239)\<close>

text \<open>
  \<open>Math.round\<close>: the integer nearest to a double, a tie going up. It is exact: the result
  is an integer, and an integer of this size is a double.
\<close>

definition math_round :: "real \<Rightarrow> int" where
  "math_round x = \<lfloor>x + 1 / 2\<rfloor>"

text \<open>
  \<open>None\<close> is \<open>undefined\<close> in the argument and \<open>null\<close> in the result; a defined argument is
  a finite number. \<open>Math.max\<close> and \<open>Math.min\<close> select an argument and round nothing; the
  two subtractions, the division and the multiplication each round their result.
\<close>

definition calculateTemperaturePercentage :: "real option \<Rightarrow> int option" where
  "calculateTemperaturePercentage t =
     (case t of
        None \<Rightarrow> None
      | Some temp \<Rightarrow>
          (let minTemp = - 20;
               maxTemp = 40;
               range' = double (maxTemp - minTemp);
               clampedTemp = max minTemp (min maxTemp temp);
               percentage = double (double (double (clampedTemp - minTemp) / range') * 100)
           in Some (math_round percentage)))"

section \<open>Sample inputs\<close>

text \<open>A payload for Seoul with the given \<open>cod\<close> and \<open>message\<close>.\<close>

definition sample_data :: "int option \<Rightarrow> string option \<Rightarrow> weather_data" where
  "sample_data c m =
     \<lparr>wd_name = ''Seoul'',
      wd_weather = [\<lparr>description = ''clear sky'', icon = ''01d''\<rparr>],
      wd_main = \<lparr>wd_temp = 10, wd_feels_like = 9, wd_humidity = 40\<rparr>,
      wd_wind_speed = 2,
      cod = c,
      message = m\<rparr>"

text \<open>A provider, and a proxy, that give the same answer to every request.\<close>

definition answers :: "upstream_result \<Rightarrow> string \<Rightarrow> upstream_result" where
  "answers r url = r"

definition proxy_answers :: "proxy_result \<Rightarrow> url_part list \<Rightarrow> proxy_result" where
  "proxy_answers r url = r"

definition no_query :: query where
  "no_query = Map.empty"

definition city_query :: query where
  "city_query = [''city'' \<mapsto> QStr ''Seoul'']"


definition idle_view :: view_state where
  "idle_view =
     \<lparr>city = [], weather = Some (Data (sample_data (Some 200) None)), loading = False,
      error = Some ''stale'', locationLoading = False, locationError = None\<rparr>"

section \<open>Auxiliary facts\<close>

lemma handler_configured:
  "k \<noteq> [] \<Longrightarrow> select_query q = Some uq \<Longrightarrow>
     handler (Some k) q upstream =
       \<lparr>reply = relay (upstream (url_of k uq)), fetched = [url_of k uq]\<rparr>"
  by (simp add: handler_def)

lemma handler_unconfigured:
  "apiKey = None \<or> apiKey = Some [] \<Longrightarrow>
     handler apiKey q upstream =
       \<lparr>reply = \<lparr>status = 500, body = Message ''API Key not configured''\<rparr>, fetched = []\<rparr>"
  by (auto simp: handler_def)

lemma handler_no_query:
  "k \<noteq> [] \<Longrightarrow> select_query q = None \<Longrightarrow>
     handler (Some k) q upstream =
       \<lparr>reply = \<lparr>status = 400,
           body = Message ''City or latitude/longitude query parameters are required''\<rparr>,
        fetched = []\<rparr>"
  by (simp add: handler_def)

lemma select_city_query: "select_query city_query = Some (By_city ''Seoul'')"
  by (simp add: select_query_def coordinate_pair_def city_name_def city_query_def)

lemma select_no_query: "select_query no_query = None"
  by (simp add: select_query_def coordinate_pair_def city_name_def no_query_def)



lemma select_query_none:
  "q ''city'' = None \<Longrightarrow> q ''lat'' = None \<or> q ''lon'' = None \<Longrightarrow> select_query q = None"
  by (auto simp: select_query_def coordinate_pair_def city_name_def)

lemma relay_sent:
  "cod d = Some c \<Longrightarrow> c \<noteq> 200 \<Longrightarrow> 100 \<le> c \<Longrightarrow> c \<le> 999 \<Longrightarrow>
     relay (Json_object d) = \<lparr>status = c, body = Message (provider_message d c)\<rparr>"
  by (simp add: relay_def send_def)




lemma sublist_key_url: "sublist k (url_of k uq)"
proof (cases uq)
  case (By_coords la lo)
  have "url_of k uq =
    (''https://api.openweathermap.org/data/2.5/weather?lat='' @ la @ ''&lon='' @ lo @ ''&appid='')
      @ k @ ''&units=metric&lang=kr''"
    by (simp add: By_coords)
  then show ?thesis unfolding sublist_def by blast
next
  case (By_city c)
  have "url_of k uq =
    (''https://api.openweathermap.org/data/2.5/weather?q='' @ c @ ''&appid='')
      @ k @ ''&units=metric&lang=kr''"
    by (simp add: By_city)
  then show ?thesis unfolding sublist_def by blast
qed

lemma literals_nonempty:
  "permission_denied_message \<noteq> []" "position_unavailable_message \<noteq> []"
  "timeout_message \<noteq> []" "unknown_error_prefix \<noteq> []"
  by (simp_all add: permission_denied_message_def position_unavailable_message_def
      timeout_message_def unknown_error_prefix_def utf8_def)

lemma settled_coords:
  "settled (fetchWeatherByCoords la lo net st) =
     catch_finally (cycle_start st)
       (coords_try (net (proxy_url_by_coords la lo)) (cycle_start st))"
  by (simp add: fetchWeatherByCoords_def Let_def)

lemma settled_city:
  "cityName \<noteq> [] \<Longrightarrow>
   settled (fetchWeatherByCity cityName net st) =
     catch_finally (cycle_start st)
       (city_try (net (proxy_url_by_city cityName)) (cycle_start st))"
  by (simp add: fetchWeatherByCity_def Let_def)

lemma coords_cycle:
  fixes la lo net st
  defines "c \<equiv> fetchWeatherByCoords la lo net st"
    and "r \<equiv> net (proxy_url_by_coords la lo)"
  shows "pending c = Some (cycle_start st)"
    and "requested c = [proxy_url_by_coords la lo]"
    and "loading (settled c) = False"
    and "r = Answer True data \<Longrightarrow> weather (settled c) = data \<and> error (settled c) = None"
    and "r = Answer False (Some b) \<Longrightarrow> message_of b = Some m \<Longrightarrow> m \<noteq> [] \<Longrightarrow>
           weather (settled c) = None \<and> error (settled c) = Some m"
    and "r = Answer False (Some b) \<Longrightarrow> message_of b = None \<or> message_of b = Some [] \<Longrightarrow>
           weather (settled c) = None \<and> error (settled c) = Some coords_failed"
    and "r \<in> {Request_rejected, Body_rejected, Answer False None} \<Longrightarrow>
           weather (settled c) = None \<and> error (settled c) = Some unexpected_error"
  unfolding c_def r_def settled_coords
  by (auto simp: fetchWeatherByCoords_def Let_def catch_finally_def cycle_start_def message_or_def)

lemma city_cycle:
  fixes cityName net st
  defines "c \<equiv> fetchWeatherByCity cityName net st"
    and "r \<equiv> net (proxy_url_by_city cityName)"
  assumes ne: "cityName \<noteq> []"
  shows "pending c = Some (cycle_start st)"
    and "requested c = [proxy_url_by_city cityName]"
    and "loading (settled c) = False"
    and "r = Answer True data \<Longrightarrow> weather (settled c) = data \<and> error (settled c) = None"
    and "r = Answer False (Some b) \<Longrightarrow> message_of b = Some m \<Longrightarrow> m \<noteq> [] \<Longrightarrow>
           weather (settled c) = None \<and> error (settled c) = Some m"
    and "r = Answer False (Some b) \<Longrightarrow> message_of b = None \<or> message_of b = Some [] \<Longrightarrow>
           weather (settled c) = None \<and> error (settled c) = Some city_failed"
    and "r \<in> {Request_rejected, Body_rejected, Answer False None} \<Longrightarrow>
           weather (settled c) = None \<and> error (settled c) = Some unexpected_error"
  unfolding c_def r_def settled_city [OF ne]
  using ne
  by (auto simp: fetchWeatherByCity_def Let_def catch_finally_def cycle_start_def message_or_def)

subsection \<open>Rounding to a double\<close>

lemma round_even_floor: "\<lfloor>x\<rfloor> \<le> round_even x" "round_even x \<le> \<lfloor>x\<rfloor> + 1"
  by (simp_all add: round_even_def Let_def)

lemma round_even_near:
  "x - 1 / 2 \<le> of_int (round_even x)" "of_int (round_even x) \<le> x + 1 / 2"
  unfolding round_even_def Let_def by (auto split: if_splits) linarith+

lemma round_even_of_int: "round_even (of_int n) = n"
  by (simp add: round_even_def)

lemma round_even_mono:
  assumes "x \<le> y"
  shows "round_even x \<le> round_even y"
proof (cases "\<lfloor>x\<rfloor> = \<lfloor>y\<rfloor>")
  case True
  with assms have "x - of_int \<lfloor>x\<rfloor> \<le> y - of_int \<lfloor>y\<rfloor>" by simp
  with True show ?thesis
    by (auto simp: round_even_def Let_def)
next
  case False
  with assms have "\<lfloor>x\<rfloor> + 1 \<le> \<lfloor>y\<rfloor>"
    using floor_mono [of x y] by linarith
  with round_even_floor(2) [of x] round_even_floor(1) [of y] show ?thesis by linarith
qed

lemma binade:
  assumes "0 < x"
  shows "2 powr real_of_int \<lfloor>log 2 x\<rfloor> \<le> x" "x < 2 powr real_of_int (\<lfloor>log 2 x\<rfloor> + 1)"
  using floor_log_eq_powr_iff [of x 2 "\<lfloor>log 2 x\<rfloor>"] assms by (simp_all add: add.commute)

lemma double_pos:
  assumes "0 < x"
  shows "double x =
    real_of_int (round_even (x * 2 powr real_of_int (52 - \<lfloor>log 2 x\<rfloor>)))
      * 2 powr real_of_int (\<lfloor>log 2 x\<rfloor> - 52)"
  using assms by (simp add: double_def Let_def)

lemma two_powr_int: "(2::real) powr real_of_int a * 2 powr real_of_int b = 2 powr real_of_int (a + b)"
  by (simp add: powr_add)

lemma two_powr_cancel: "(2::real) powr real_of_int (52 - e) * 2 powr real_of_int (e - 52) = 1"
  by (simp only: two_powr_int) simp

lemma two_powr_up:
  "(2::real) powr real_of_int e * 2 powr real_of_int (52 - e) = 2 ^ 52"
  "(2::real) powr real_of_int (e + 1) * 2 powr real_of_int (52 - e) = 2 ^ 53"
  by (simp_all only: two_powr_int) simp_all

lemma two_powr_down:
  "(2::real) ^ 52 * 2 powr real_of_int (e - 52) = 2 powr real_of_int e"
  "(2::real) ^ 53 * 2 powr real_of_int (e - 52) = 2 powr real_of_int (e + 1)"
proof -
  have "(2::real) ^ 52 = 2 powr real_of_int 52" "(2::real) ^ 53 = 2 powr real_of_int 53"
    by simp_all
  then show "(2::real) ^ 52 * 2 powr real_of_int (e - 52) = 2 powr real_of_int e"
    "(2::real) ^ 53 * 2 powr real_of_int (e - 52) = 2 powr real_of_int (e + 1)"
    by (simp_all only: two_powr_int) (simp_all add: add.commute)
qed

lemma scaled:
  assumes "0 < x"
  shows "2 ^ 52 \<le> x * 2 powr real_of_int (52 - \<lfloor>log 2 x\<rfloor>)"
    "x * 2 powr real_of_int (52 - \<lfloor>log 2 x\<rfloor>) < 2 ^ 53"
proof -
  define e where "e = \<lfloor>log 2 x\<rfloor>"
  have lo: "2 powr real_of_int e \<le> x" and hi: "x < 2 powr real_of_int (e + 1)"
    using binade [OF assms(1)] unfolding e_def by simp_all
  have "(2::real) ^ 52 = 2 powr real_of_int e * 2 powr real_of_int (52 - e)"
    by (rule two_powr_up(1) [symmetric])
  also have "\<dots> \<le> x * 2 powr real_of_int (52 - e)"
    by (rule mult_right_mono [OF lo]) simp
  finally show "2 ^ 52 \<le> x * 2 powr real_of_int (52 - \<lfloor>log 2 x\<rfloor>)"
    unfolding e_def .
  have "x * 2 powr real_of_int (52 - e) < 2 powr real_of_int (e + 1) * 2 powr real_of_int (52 - e)"
    by (rule mult_strict_right_mono [OF hi]) simp
  also have "\<dots> = (2::real) ^ 53"
    by (rule two_powr_up(2))
  finally show "x * 2 powr real_of_int (52 - \<lfloor>log 2 x\<rfloor>) < 2 ^ 53"
    unfolding e_def .
qed

lemma significand:
  assumes "0 < x"
  defines "m \<equiv> round_even (x * 2 powr real_of_int (52 - \<lfloor>log 2 x\<rfloor>))"
  shows "2 ^ 52 \<le> m" "m \<le> 2 ^ 53"
proof -
  have "round_even (of_int (2 ^ 52)) \<le> m"
    unfolding m_def using scaled(1) [OF assms(1)] by (intro round_even_mono) simp
  then show "2 ^ 52 \<le> m" by (simp only: round_even_of_int)
  have "m \<le> round_even (of_int (2 ^ 53))"
    unfolding m_def using scaled(2) [OF assms(1)] by (intro round_even_mono) simp
  then show "m \<le> 2 ^ 53" by (simp only: round_even_of_int)
qed

lemma double_in_binade:
  assumes "0 < x"
  shows "2 powr real_of_int \<lfloor>log 2 x\<rfloor> \<le> double x"
    "double x \<le> 2 powr real_of_int (\<lfloor>log 2 x\<rfloor> + 1)"
proof -
  define e where "e = \<lfloor>log 2 x\<rfloor>"
  define m where "m = round_even (x * 2 powr real_of_int (52 - e))"
  have d: "double x = real_of_int m * 2 powr real_of_int (e - 52)"
    unfolding double_pos [OF assms] m_def e_def ..
  have "2 ^ 52 \<le> m" "m \<le> 2 ^ 53"
    using significand [OF assms] unfolding m_def e_def by simp_all
  then have "real_of_int (2 ^ 52) \<le> real_of_int m" "real_of_int m \<le> real_of_int (2 ^ 53)"
    by (simp_all only: of_int_le_iff)
  then have m: "2 ^ 52 \<le> real_of_int m" "real_of_int m \<le> 2 ^ 53" by simp_all
  have "2 powr real_of_int e = (2::real) ^ 52 * 2 powr real_of_int (e - 52)"
    by (rule two_powr_down(1) [symmetric])
  also have "\<dots> \<le> real_of_int m * 2 powr real_of_int (e - 52)"
    by (rule mult_right_mono [OF m(1)]) simp
  finally show "2 powr real_of_int \<lfloor>log 2 x\<rfloor> \<le> double x"
    unfolding d e_def .
  have "real_of_int m * 2 powr real_of_int (e - 52) \<le> 2 ^ 53 * 2 powr real_of_int (e - 52)"
    by (rule mult_right_mono [OF m(2)]) simp
  also have "\<dots> = 2 powr real_of_int (e + 1)"
    by (rule two_powr_down(2))
  finally show "double x \<le> 2 powr real_of_int (\<lfloor>log 2 x\<rfloor> + 1)"
    unfolding d e_def .
qed

lemma double_pos_mono:
  assumes "0 < x" and "x \<le> y"
  shows "double x \<le> double y"
proof (cases "\<lfloor>log 2 x\<rfloor> = \<lfloor>log 2 y\<rfloor>")
  case True
  from assms have y: "0 < y" by simp
  define e where "e = \<lfloor>log 2 y\<rfloor>"
  have "x * 2 powr real_of_int (52 - e) \<le> y * 2 powr real_of_int (52 - e)"
    by (rule mult_right_mono [OF assms(2)]) simp
  then have "round_even (x * 2 powr real_of_int (52 - e)) \<le> round_even (y * 2 powr real_of_int (52 - e))"
    by (rule round_even_mono)
  then have "real_of_int (round_even (x * 2 powr real_of_int (52 - e))) * 2 powr real_of_int (e - 52)
      \<le> real_of_int (round_even (y * 2 powr real_of_int (52 - e))) * 2 powr real_of_int (e - 52)"
    by (intro mult_right_mono) simp_all
  then show ?thesis
    unfolding double_pos [OF assms(1)] double_pos [OF y] True e_def .
next
  case False
  from assms have y: "0 < y" by simp
  have "log 2 x \<le> log 2 y" using assms by simp
  then have "\<lfloor>log 2 x\<rfloor> \<le> \<lfloor>log 2 y\<rfloor>" by (rule floor_mono)
  with False have "\<lfloor>log 2 x\<rfloor> + 1 \<le> \<lfloor>log 2 y\<rfloor>" by simp
  then have "real_of_int (\<lfloor>log 2 x\<rfloor> + 1) \<le> real_of_int \<lfloor>log 2 y\<rfloor>"
    by (simp only: of_int_le_iff)
  then have "(2::real) powr real_of_int (\<lfloor>log 2 x\<rfloor> + 1) \<le> 2 powr real_of_int \<lfloor>log 2 y\<rfloor>"
    by (intro powr_mono) simp_all
  with double_in_binade(2) [OF assms(1)] double_in_binade(1) [OF y] show ?thesis by linarith
qed

lemma double_zero: "double 0 = 0"
  by (simp add: double_def)

lemma double_pos_gt: "0 < x \<Longrightarrow> 0 < double x"
  using double_in_binade(1) [of x] powr_gt_zero [of 2 "real_of_int \<lfloor>log 2 x\<rfloor>"] by linarith

lemma double_mono:
  assumes "0 \<le> x" and "x \<le> y"
  shows "double x \<le> double y"
proof (cases "x = 0")
  case True
  show ?thesis
  proof (cases "y = 0")
    case True
    with \<open>x = 0\<close> show ?thesis by simp
  next
    case False
    with assms have "0 < y" by simp
    from double_pos_gt [OF this] \<open>x = 0\<close> show ?thesis by (simp add: double_zero)
  qed
next
  case False
  with assms have "0 < x" by simp
  then show ?thesis using assms(2) by (rule double_pos_mono)
qed

lemma double_exact:
  assumes "2 powr real_of_int e \<le> x" and "x < 2 powr real_of_int (e + 1)"
    and "x * 2 powr real_of_int (52 - e) = real_of_int m"
  shows "double x = x"
proof -
  have x: "0 < x" using assms(1) powr_gt_zero [of 2 "real_of_int e"] by linarith
  then have e: "\<lfloor>log 2 x\<rfloor> = e"
    using assms(1,2) by (simp add: floor_log_eq_powr_iff add.commute)
  have "double x = real_of_int m * 2 powr real_of_int (e - 52)"
    unfolding double_pos [OF x] e assms(3) round_even_of_int ..
  also have "\<dots> = x * (2 powr real_of_int (52 - e) * 2 powr real_of_int (e - 52))"
    unfolding assms(3) [symmetric] by (simp only: mult.assoc)
  also have "\<dots> = x"
    unfolding two_powr_cancel by simp
  finally show ?thesis .
qed

lemma double_error:
  assumes "0 < x"
  shows "\<bar>double x - x\<bar> \<le> x / 2 ^ 53"
proof -
  define e where "e = \<lfloor>log 2 x\<rfloor>"
  define s where "s = x * 2 powr real_of_int (52 - e)"
  define u where "u = (2::real) powr real_of_int (e - 52)"
  have u: "0 < u" by (simp add: u_def)
  have "s * u = x * (2 powr real_of_int (52 - e) * 2 powr real_of_int (e - 52))"
    unfolding s_def u_def by (simp only: mult.assoc)
  then have x: "x = s * u"
    unfolding two_powr_cancel by simp
  have d: "double x = real_of_int (round_even s) * u"
    unfolding double_pos [OF assms] s_def e_def u_def ..
  have "\<bar>real_of_int (round_even s) - s\<bar> \<le> 1 / 2"
    using round_even_near [of s] by linarith
  then have "\<bar>real_of_int (round_even s) - s\<bar> * u \<le> 1 / 2 * u"
    using u by (intro mult_right_mono) simp_all
  moreover have "\<bar>double x - x\<bar> = \<bar>real_of_int (round_even s) - s\<bar> * u"
  proof -
    have "double x - x = (real_of_int (round_even s) - s) * u"
      by (subst d, subst x) (simp only: left_diff_distrib)
    then show ?thesis using u by (simp add: abs_mult)
  qed
  moreover have "1 / 2 * u \<le> x / 2 ^ 53"
  proof -
    have "2 ^ 52 \<le> s" using scaled(1) [OF assms] by (simp add: s_def e_def)
    then have "2 ^ 52 * u \<le> s * u"
      using u by (intro mult_right_mono) simp_all
    then have "2 ^ 52 * u \<le> x" by (simp only: x [symmetric])
    then show ?thesis by simp
  qed
  ultimately show ?thesis by linarith
qed

lemma double_eval:
  assumes "2 powr real_of_int e \<le> x" and "x < 2 powr real_of_int (e + 1)"
  shows "double x =
    real_of_int (round_even (x * 2 powr real_of_int (52 - e))) * 2 powr real_of_int (e - 52)"
proof -
  have x: "0 < x" using assms(1) powr_gt_zero [of 2 "real_of_int e"] by linarith
  then have e: "\<lfloor>log 2 x\<rfloor> = e"
    using assms(1,2) by (simp add: floor_log_eq_powr_iff add.commute)
  show ?thesis unfolding double_pos [OF x] e ..
qed

lemma double_error_nonneg:
  assumes "0 \<le> x"
  shows "\<bar>double x - x\<bar> \<le> x / 2 ^ 53"
proof (cases "x = 0")
  case True
  then show ?thesis by (simp add: double_zero)
next
  case False
  with assms have "0 < x" by simp
  then show ?thesis by (rule double_error)
qed

lemma double_values:
  "double 60 = 60" "double 1 = 1" "double 100 = 100" "double 30 = 30" "double (1 / 2) = 1 / 2"
  "double 50 = 50" "double (15 / 2) = 15 / 2" "double (1 / 8) = 1 / 8" "double (25 / 2) = 25 / 2"
  "double (15 / 4) = 15 / 4" "double (1 / 16) = 1 / 16" "double (25 / 4) = 25 / 4"
proof -
  show "double 60 = 60"
    by (rule double_exact [of 5 _ "60 * 2 ^ 47"]) simp_all
  show "double 1 = 1"
    by (rule double_exact [of 0 _ "2 ^ 52"]) simp_all
  show "double 100 = 100"
    by (rule double_exact [of 6 _ "100 * 2 ^ 46"]) simp_all
  show "double 30 = 30"
    by (rule double_exact [of 4 _ "30 * 2 ^ 48"]) simp_all
  show "double (1 / 2) = 1 / 2"
    by (rule double_exact [of "- 1" _ "2 ^ 52"]) (simp_all add: powr_neg_numeral)
  show "double 50 = 50"
    by (rule double_exact [of 5 _ "50 * 2 ^ 47"]) simp_all
  show "double (15 / 2) = 15 / 2"
    by (rule double_exact [of 2 _ "15 * 2 ^ 49"]) simp_all
  show "double (1 / 8) = 1 / 8"
    by (rule double_exact [of "- 3" _ "2 ^ 52"]) (simp_all add: powr_neg_numeral)
  show "double (25 / 2) = 25 / 2"
    by (rule double_exact [of 3 _ "25 * 2 ^ 48"]) simp_all
  show "double (15 / 4) = 15 / 4"
    by (rule double_exact [of 1 _ "15 * 2 ^ 49"]) simp_all
  show "double (1 / 16) = 1 / 16"
    by (rule double_exact [of "- 4" _ "2 ^ 52"]) (simp_all add: powr_neg_numeral)
  show "double (25 / 4) = 25 / 4"
    by (rule double_exact [of 2 _ "25 * 2 ^ 48"]) simp_all
qed

lemma percentage_bounds:
  fixes c :: real
  assumes "- 20 \<le> c" and "c \<le> 40"
  defines "p \<equiv> double (double (double (c + 20) / 60) * 100)"
  shows "0 \<le> p" and "p \<le> 100" and "\<bar>p - (c + 20) * 100 / 60\<bar> \<le> 300 / 2 ^ 53"
proof -
  define a where "a = c + 20"
  define d1 where "d1 = double a"
  define d2 where "d2 = double (d1 / 60)"
  have p: "p = double (d2 * 100)" by (simp add: p_def d2_def d1_def a_def)
  have a: "0 \<le> a" "a \<le> 60" using assms by (simp_all add: a_def)
  have d1: "0 \<le> d1" "d1 \<le> 60"
    using double_mono [of 0 a] double_mono [of a 60] a
    by (simp_all add: d1_def double_zero double_values)
  have e1: "\<bar>d1 - a\<bar> \<le> 60 / 2 ^ 53"
    using double_error_nonneg [OF a(1)] a(2) unfolding d1_def by simp
  have q: "0 \<le> d1 / 60" "d1 / 60 \<le> 1" using d1 by simp_all
  have d2: "0 \<le> d2" "d2 \<le> 1"
    using double_mono [of 0 "d1 / 60"] double_mono [of "d1 / 60" 1] q
    by (simp_all add: d2_def double_zero double_values)
  have e2: "\<bar>d2 - d1 / 60\<bar> \<le> 1 / 2 ^ 53"
    using double_error_nonneg [OF q(1)] q(2) unfolding d2_def by simp
  have r: "0 \<le> d2 * 100" "d2 * 100 \<le> 100" using d2 by simp_all
  show "0 \<le> p" "p \<le> 100"
    using double_mono [of 0 "d2 * 100"] double_mono [of "d2 * 100" 100] r
    by (simp_all add: p double_zero double_values)
  have e3: "\<bar>p - d2 * 100\<bar> \<le> 100 / 2 ^ 53"
    using double_error_nonneg [OF r(1)] r(2) unfolding p by simp
  define u :: real where "u = 1 / 2 ^ 53"
  have "\<bar>d1 - a\<bar> \<le> 60 * u" "\<bar>d2 - d1 / 60\<bar> \<le> u" "\<bar>p - d2 * 100\<bar> \<le> 100 * u"
    using e1 e2 e3 by (simp_all add: u_def)
  then have "\<bar>p - a * 100 / 60\<bar> \<le> 300 * u" by linarith
  then show "\<bar>p - (c + 20) * 100 / 60\<bar> \<le> 300 / 2 ^ 53"
    by (simp add: a_def u_def)
qed

lemma trace_13_3:
  "double (133 / 10) = 7487234380503450 / 2 ^ 49"
  "double (7487234380503450 / 2 ^ 49 + 20) = 4686558362232422 / 2 ^ 47"
  "double (4686558362232422 / 2 ^ 47 / 60) = 4998995586381250 / 2 ^ 53"
  "double (4998995586381250 / 2 ^ 53 * 100) = 7810930603720703 / 2 ^ 47"
proof -
  show "double (133 / 10) = 7487234380503450 / 2 ^ 49"
    by (subst double_eval [of 3]) (simp_all add: round_even_def powr_neg_numeral)
  show "double (7487234380503450 / 2 ^ 49 + 20) = 4686558362232422 / 2 ^ 47"
    by (subst double_eval [of 5]) (simp_all add: round_even_def powr_neg_numeral)
  show "double (4686558362232422 / 2 ^ 47 / 60) = 4998995586381250 / 2 ^ 53"
    by (subst double_eval [of "- 1"]) (simp_all add: round_even_def powr_neg_numeral)
  show "double (4998995586381250 / 2 ^ 53 * 100) = 7810930603720703 / 2 ^ 47"
    by (subst double_eval [of 5]) (simp_all add: round_even_def powr_neg_numeral)
qed

lemma at_13_3: "calculateTemperaturePercentage (Some (double (133 / 10))) = Some 55"
proof -
  have c: "max (- 20) (min 40 (double (133 / 10))) = 7487234380503450 / 2 ^ 49"
    by (simp add: trace_13_3(1))
  have "calculateTemperaturePercentage (Some (double (133 / 10))) =
      Some (math_round (double (double (double (7487234380503450 / 2 ^ 49 + 20) / 60) * 100)))"
    unfolding calculateTemperaturePercentage_def Let_def option.case c by (simp add: double_values)
  also have "\<dots> = Some (math_round (7810930603720703 / 2 ^ 47))"
    by (simp only: trace_13_3)
  also have "\<dots> = Some 55"
    by (simp add: math_round_def)
  finally show ?thesis .
qed

section \<open>The proxy relays the provider's error code\<close>

text \<open>
  Claim C1, as the code has it. The test of line 36 is \<open>data.cod && data.cod !== 200\<close>, and
  line 37 sends the embedded code as the status inside the \<open>try\<close> block. So the embedded code
  is relayed when it is present, not 200 and a status that can be sent (from 100 to 999): the
  reply then has that code as its status; its message is the provider's message when that is
  present and not empty, and otherwise the fallback \<open>OpenWeatherMap API Error: \<close> followed by
  the code.
\<close>

theorem provider_error_relayed:
  assumes "k \<noteq> []" and "select_query q = Some uq"
    and "upstream (url_of k uq) = Json_object d"
    and "cod d = Some c" and "c \<noteq> 200" and "100 \<le> c" and "c \<le> 999"
  shows "status (reply (handler (Some k) q upstream)) = c
    \<and> (\<forall>m. message d = Some m \<and> m \<noteq> [] \<longrightarrow>
          body (reply (handler (Some k) q upstream)) = Message m)
    \<and> (message d = None \<or> message d = Some [] \<longrightarrow>
          body (reply (handler (Some k) q upstream)) =
            Message (''OpenWeatherMap API Error: '' @ number_to_string c))"
  using assms by (auto simp: handler_configured relay_sent provider_message_def)

theorem provider_error_relayed_witness:
  "status (reply (handler (Some ''secret'') city_query
       (answers (Json_object (sample_data (Some 404) (Some ''city not found'')))))) = 404
   \<and> body (reply (handler (Some ''secret'') city_query
       (answers (Json_object (sample_data (Some 404) (Some ''city not found'')))))) =
       Message ''city not found''
   \<and> status (reply (handler (Some ''secret'') city_query
       (answers (Json_object (sample_data (Some 401) None))))) = 401
   \<and> body (reply (handler (Some ''secret'') city_query
       (answers (Json_object (sample_data (Some 401) None))))) =
       Message ''OpenWeatherMap API Error: 401''"
proof -
  have k: "''secret'' \<noteq> []" by simp
  have n: "number_to_string 401 = ''401''"
    by (simp add: number_to_string_def nat_to_string.simps)
  have a: "answers (Json_object (sample_data (Some 404) (Some ''city not found'')))
             (url_of ''secret'' (By_city ''Seoul'')) =
           Json_object (sample_data (Some 404) (Some ''city not found''))"
    by (simp add: answers_def)
  have b: "answers (Json_object (sample_data (Some 401) None))
             (url_of ''secret'' (By_city ''Seoul'')) =
           Json_object (sample_data (Some 401) None)"
    by (simp add: answers_def)
  have c1: "cod (sample_data (Some 404) (Some ''city not found'')) = Some 404"
    and m1: "message (sample_data (Some 404) (Some ''city not found'')) = Some ''city not found''"
    and c2: "cod (sample_data (Some 401) None) = Some 401"
    and m2: "message (sample_data (Some 401) None) = None"
    by (simp_all add: sample_data_def)
  from provider_error_relayed
         [where upstream = "answers (Json_object (sample_data (Some 404) (Some ''city not found'')))",
          OF k select_city_query a c1] m1
  have "status (reply (handler (Some ''secret'') city_query
       (answers (Json_object (sample_data (Some 404) (Some ''city not found'')))))) = 404
   \<and> body (reply (handler (Some ''secret'') city_query
       (answers (Json_object (sample_data (Some 404) (Some ''city not found'')))))) =
       Message ''city not found''"
    by simp
  moreover from provider_error_relayed
         [where upstream = "answers (Json_object (sample_data (Some 401) None))",
          OF k select_city_query b c2] m2 n
  have "status (reply (handler (Some ''secret'') city_query
       (answers (Json_object (sample_data (Some 401) None))))) = 401
   \<and> body (reply (handler (Some ''secret'') city_query
       (answers (Json_object (sample_data (Some 401) None))))) =
       Message ''OpenWeatherMap API Error: 401''"
    by simp
  ultimately show ?thesis by simp
qed

text \<open>
  Claim C1 as it is worded fails at three inputs, each with an embedded code that is present
  and differs from 200. The code zero is falsy: the test of line 36 fails and the body is
  relayed with status 200. The code 99 cannot be sent: line 37 throws, and the \<open>catch\<close>
  answers 500. With the code 404 and a provider message that is present but empty, the
  message of the reply is the fallback and not the provider's message.
\<close>

theorem embedded_code_not_always_relayed:
  "cod (sample_data (Some 0) None) = Some 0 \<and> (0::int) \<noteq> 200
   \<and> status (reply (handler (Some ''secret'') city_query
        (answers (Json_object (sample_data (Some 0) None))))) = 200
   \<and> cod (sample_data (Some 99) None) = Some 99 \<and> (99::int) \<noteq> 200
   \<and> status (reply (handler (Some ''secret'') city_query
        (answers (Json_object (sample_data (Some 99) None))))) = 500
   \<and> cod (sample_data (Some 404) (Some [])) = Some 404 \<and> (404::int) \<noteq> 200
   \<and> message (sample_data (Some 404) (Some [])) = Some []
   \<and> body (reply (handler (Some ''secret'') city_query
        (answers (Json_object (sample_data (Some 404) (Some [])))))) =
       Message ''OpenWeatherMap API Error: 404''
   \<and> body (reply (handler (Some ''secret'') city_query
        (answers (Json_object (sample_data (Some 404) (Some [])))))) \<noteq> Message []"
proof -
  have n: "number_to_string 404 = ''404''"
    by (simp add: number_to_string_def nat_to_string.simps)
  show ?thesis
    by (simp add: handler_configured [OF _ select_city_query] answers_def sample_data_def
        relay_def send_def network_issue_def provider_message_def n)
qed

section \<open>The temperature percentage\<close>

text \<open>
  Claim C2: \<open>calculateTemperaturePercentage\<close> maps -20 to 0, 40 to 100, 10 to 50, -50 to 0
  and 100 to 100. It rounds to the nearest integer, a tie going up: -12.5 gives 13 (from 12.5)
  and -16.25 gives 6 (from 6.25). For every defined temperature the result is an integer
  between 0 and 100, and it differs from the position of the clamped temperature on the scale
  from -20 to 40, in percent, by at most a half and the error of the three double operations,
  which is below \<open>1 / 10 ^ 13\<close>. At the double nearest to 13.3 the exact position 55.5 is a
  tie, the doubles give 55.49999999999999, and the result is 55.
\<close>

theorem temperature_percentage:
  "calculateTemperaturePercentage None = None
   \<and> calculateTemperaturePercentage (Some (- 20)) = Some 0
   \<and> calculateTemperaturePercentage (Some 40) = Some 100
   \<and> calculateTemperaturePercentage (Some 10) = Some 50
   \<and> calculateTemperaturePercentage (Some (- 50)) = Some 0
   \<and> calculateTemperaturePercentage (Some 100) = Some 100
   \<and> calculateTemperaturePercentage (Some (- 25 / 2)) = Some 13
   \<and> calculateTemperaturePercentage (Some (- 65 / 4)) = Some 6
   \<and> calculateTemperaturePercentage (Some (double (133 / 10))) = Some 55
   \<and> (\<exists>p. calculateTemperaturePercentage (Some temp) = Some p \<and> 0 \<le> p \<and> p \<le> 100
        \<and> \<bar>real_of_int p - (max (- 20) (min 40 temp) + 20) * 100 / 60\<bar> \<le> 1 / 2 + 1 / 10 ^ 13)"
proof -
  have v: "calculateTemperaturePercentage None = None"
    "calculateTemperaturePercentage (Some (- 20)) = Some 0"
    "calculateTemperaturePercentage (Some 40) = Some 100"
    "calculateTemperaturePercentage (Some 10) = Some 50"
    "calculateTemperaturePercentage (Some (- 50)) = Some 0"
    "calculateTemperaturePercentage (Some 100) = Some 100"
    "calculateTemperaturePercentage (Some (- 25 / 2)) = Some 13"
    "calculateTemperaturePercentage (Some (- 65 / 4)) = Some 6"
    by (simp_all add: calculateTemperaturePercentage_def math_round_def double_zero double_values)
  define c where "c = max (- 20) (min 40 temp)"
  define p where "p = double (double (double (c + 20) / 60) * 100)"
  have c: "- 20 \<le> c" "c \<le> 40" by (simp_all add: c_def)
  note b = percentage_bounds [OF c, folded p_def]
  have f: "calculateTemperaturePercentage (Some temp) = Some (math_round p)"
    by (simp add: calculateTemperaturePercentage_def Let_def double_values p_def c_def)
  have m: "p - 1 / 2 \<le> real_of_int (math_round p)" "real_of_int (math_round p) \<le> p + 1 / 2"
    unfolding math_round_def by linarith+
  have r: "0 \<le> math_round p" "math_round p \<le> 100"
    using b(1,2) unfolding math_round_def by linarith+
  have "(300::real) / 2 ^ 53 \<le> 1 / 10 ^ 13" by simp
  with b(3) m have "\<bar>real_of_int (math_round p) - (c + 20) * 100 / 60\<bar> \<le> 1 / 2 + 1 / 10 ^ 13"
    by linarith
  with f r have "\<exists>p. calculateTemperaturePercentage (Some temp) = Some p \<and> 0 \<le> p \<and> p \<le> 100
        \<and> \<bar>real_of_int p - (max (- 20) (min 40 temp) + 20) * 100 / 60\<bar> \<le> 1 / 2 + 1 / 10 ^ 13"
    unfolding c_def by blast
  with v at_13_3 show ?thesis by simp
qed

section \<open>Which upstream request the proxy builds\<close>



text \<open>
  Claim C4: with the credential configured, a request that has no \<open>city\<close> and lacks \<open>lat\<close>
  or \<open>lon\<close> is answered with status 400 and the message
  \<open>City or latitude/longitude query parameters are required\<close>, and nothing is fetched.
\<close>

theorem missing_parameters_rejected:
  "k \<noteq> [] \<Longrightarrow> q ''city'' = None \<Longrightarrow> q ''lat'' = None \<or> q ''lon'' = None \<Longrightarrow>
     status (reply (handler (Some k) q upstream)) = 400
   \<and> body (reply (handler (Some k) q upstream)) =
       Message ''City or latitude/longitude query parameters are required''
   \<and> fetched (handler (Some k) q upstream) = []"
  by (simp add: handler_no_query select_query_none)

theorem missing_parameters_rejected_witness:
  "status (reply (handler (Some ''secret'') no_query (answers Fetch_rejected))) = 400
   \<and> body (reply (handler (Some ''secret'') no_query (answers Fetch_rejected))) =
       Message ''City or latitude/longitude query parameters are required''
   \<and> fetched (handler (Some ''secret'') no_query (answers Fetch_rejected)) = []"
proof -
  have "''secret'' \<noteq> []" "no_query ''city'' = None" "no_query ''lat'' = None \<or> no_query ''lon'' = None"
    by (simp_all add: no_query_def)
  then show ?thesis by (rule missing_parameters_rejected)
qed

section \<open>The configuration is checked first\<close>

text \<open>
  Claim C9: when the credential is missing (the variable is not set, or is empty) the proxy
  answers 500 with the message \<open>API Key not configured\<close> and fetches nothing, for every
  query, also one that has neither a city nor coordinates and would otherwise get 400.
\<close>

theorem configuration_checked_first:
  "apiKey = None \<or> apiKey = Some [] \<Longrightarrow>
     status (reply (handler apiKey q upstream)) = 500
   \<and> body (reply (handler apiKey q upstream)) = Message ''API Key not configured''
   \<and> fetched (handler apiKey q upstream) = []"
  by (simp add: handler_unconfigured)

theorem configuration_checked_first_witness:
  "select_query no_query = None
   \<and> status (reply (handler None no_query (answers Fetch_rejected))) = 500
   \<and> body (reply (handler None no_query (answers Fetch_rejected))) =
       Message ''API Key not configured''
   \<and> fetched (handler None no_query (answers Fetch_rejected)) = []
   \<and> status (reply (handler (Some []) no_query (answers Fetch_rejected))) = 500"
proof -
  have a: "None = None \<or> None = Some ([]::string)" by simp
  have b: "Some [] = None \<or> Some [] = Some ([]::string)" by simp
  from configuration_checked_first [OF a, of no_query "answers Fetch_rejected"]
    configuration_checked_first [OF b, of no_query "answers Fetch_rejected"]
    select_no_query
  show ?thesis by simp
qed

section \<open>Where a status 500 comes from\<close>




section \<open>The credential does not reach the client\<close>

text \<open>
  Claim C6: the reply does not depend on the value of the credential. Two runs on the same
  request with two configured keys, whose upstream requests get the same answer, give the same
  reply (status and body): no branch writes the key into the reply. The key does appear in
  every url that is fetched.
\<close>

theorem reply_independent_of_key:
  assumes "k1 \<noteq> []" and "k2 \<noteq> []"
    and "\<And>uq. select_query q = Some uq \<Longrightarrow> upstream1 (url_of k1 uq) = upstream2 (url_of k2 uq)"
  shows "reply (handler (Some k1) q upstream1) = reply (handler (Some k2) q upstream2)
    \<and> (\<forall>u \<in> set (fetched (handler (Some k1) q upstream1)). sublist k1 u)"
proof (cases "select_query q")
  case None
  with assms show ?thesis by (simp add: handler_no_query)
next
  case (Some uq)
  with assms show ?thesis by (simp add: handler_configured sublist_key_url)
qed

theorem reply_independent_of_key_witness:
  "reply (handler (Some ''secret'') city_query
      (answers (Json_object (sample_data (Some 401) None)))) =
   reply (handler (Some ''other key'') city_query
      (answers (Json_object (sample_data (Some 401) None))))
   \<and> fetched (handler (Some ''secret'') city_query
      (answers (Json_object (sample_data (Some 401) None)))) =
      [''https://api.openweathermap.org/data/2.5/weather?q=Seoul&appid=secret&units=metric&lang=kr'']
   \<and> sublist ''secret''
      ''https://api.openweathermap.org/data/2.5/weather?q=Seoul&appid=secret&units=metric&lang=kr''"
proof -
  have a: "''secret'' \<noteq> []" and b: "''other key'' \<noteq> []" by simp_all
  have c: "\<And>uq. select_query city_query = Some uq \<Longrightarrow>
      answers (Json_object (sample_data (Some 401) None)) (url_of ''secret'' uq) =
      answers (Json_object (sample_data (Some 401) None)) (url_of ''other key'' uq)"
    by (simp add: answers_def)
  have f: "fetched (handler (Some ''secret'') city_query
      (answers (Json_object (sample_data (Some 401) None)))) =
      [''https://api.openweathermap.org/data/2.5/weather?q=Seoul&appid=secret&units=metric&lang=kr'']"
    by (simp add: handler_configured [OF _ select_city_query])
  from reply_independent_of_key
    [where ?upstream1.0 = "answers (Json_object (sample_data (Some 401) None))"
       and ?upstream2.0 = "answers (Json_object (sample_data (Some 401) None))",
     OF a b c] f
  show ?thesis by simp
qed

section \<open>The message for a geolocation failure\<close>

text \<open>
  Claim C7: the mapping from the error code to the message is a total function. Each of the
  three codes of the platform gives its own fixed message, every other code gives the fixed
  text for an unknown error with the code in it, and the message is never empty; the callback
  stores it as the location error.
\<close>

theorem geolocation_error_message_total:
  "geolocation_error_message PERMISSION_DENIED = permission_denied_message
   \<and> geolocation_error_message POSITION_UNAVAILABLE = position_unavailable_message
   \<and> geolocation_error_message TIMEOUT = timeout_message
   \<and> (code \<noteq> PERMISSION_DENIED \<and> code \<noteq> POSITION_UNAVAILABLE \<and> code \<noteq> TIMEOUT \<longrightarrow>
        geolocation_error_message code = unknown_error_prefix @ number_to_string code @ '')'')
   \<and> geolocation_error_message code \<noteq> []
   \<and> locationError (on_geolocation_error code st) = Some (geolocation_error_message code)"
  by (simp add: geolocation_error_message_def on_geolocation_error_def literals_nonempty
      PERMISSION_DENIED_def POSITION_UNAVAILABLE_def TIMEOUT_def)

theorem geolocation_error_message_total_witness:
  "geolocation_error_message 1 = permission_denied_message
   \<and> geolocation_error_message 2 = position_unavailable_message
   \<and> geolocation_error_message 3 = timeout_message
   \<and> geolocation_error_message 7 = unknown_error_prefix @ ''7)''
   \<and> geolocation_error_message 7 \<noteq> []"
proof -
  have n: "number_to_string 7 = ''7''"
    by (simp add: number_to_string_def nat_to_string.simps)
  have d: "(7::int) \<noteq> PERMISSION_DENIED \<and> 7 \<noteq> POSITION_UNAVAILABLE \<and> 7 \<noteq> TIMEOUT"
    by (simp add: PERMISSION_DENIED_def POSITION_UNAVAILABLE_def TIMEOUT_def)
  from geolocation_error_message_total [of 7] d n
  show ?thesis
    by (simp add: PERMISSION_DENIED_def POSITION_UNAVAILABLE_def TIMEOUT_def)
qed

section \<open>The fetch cycle of the view\<close>

text \<open>
  Claim C8: a cycle of \<open>fetchWeatherByCoords\<close>, and one of \<open>fetchWeatherByCity\<close> for a name
  that is not empty, first shows the state with the loading flag set and the error and the
  result cleared. When it has settled the loading flag is clear, whatever the proxy did: after
  an answer that is ok the result is the body and there is no error; after an answer that is
  not ok the error is the message of the body when that is present and not empty, and the
  fallback of the function otherwise; after a rejected fetch, a body that cannot be parsed, or
  a \<open>null\<close> body of an answer that is not ok, the exception is caught and the error is the
  message for an unexpected error.
\<close>

theorem fetch_cycle:
  "loading (cycle_start st) \<and> error (cycle_start st) = None \<and> weather (cycle_start st) = None
   \<and> (let c = fetchWeatherByCoords la lo net st; r = net (proxy_url_by_coords la lo) in
        pending c = Some (cycle_start st)
      \<and> loading (settled c) = False
      \<and> (r = Answer True data \<longrightarrow> weather (settled c) = data \<and> error (settled c) = None)
      \<and> (r = Answer False (Some b) \<and> message_of b = Some m \<and> m \<noteq> [] \<longrightarrow>
           weather (settled c) = None \<and> error (settled c) = Some m)
      \<and> (r = Answer False (Some b) \<and> (message_of b = None \<or> message_of b = Some []) \<longrightarrow>
           weather (settled c) = None \<and> error (settled c) = Some coords_failed)
      \<and> (r \<in> {Request_rejected, Body_rejected, Answer False None} \<longrightarrow>
           weather (settled c) = None \<and> error (settled c) = Some unexpected_error))
   \<and> (cityName \<noteq> [] \<longrightarrow>
       (let c = fetchWeatherByCity cityName net st; r = net (proxy_url_by_city cityName) in
          pending c = Some (cycle_start st)
        \<and> loading (settled c) = False
        \<and> (r = Answer True data \<longrightarrow> weather (settled c) = data \<and> error (settled c) = None)
        \<and> (r = Answer False (Some b) \<and> message_of b = Some m \<and> m \<noteq> [] \<longrightarrow>
             weather (settled c) = None \<and> error (settled c) = Some m)
        \<and> (r = Answer False (Some b) \<and> (message_of b = None \<or> message_of b = Some []) \<longrightarrow>
             weather (settled c) = None \<and> error (settled c) = Some city_failed)
        \<and> (r \<in> {Request_rejected, Body_rejected, Answer False None} \<longrightarrow>
             weather (settled c) = None \<and> error (settled c) = Some unexpected_error)))"
proof -
  have s: "loading (cycle_start st) \<and> error (cycle_start st) = None \<and> weather (cycle_start st) = None"
    by (simp add: cycle_start_def)
  note c = coords_cycle [where la = la and lo = lo and net = net and st = st]
  have 1: "let c = fetchWeatherByCoords la lo net st; r = net (proxy_url_by_coords la lo) in
        pending c = Some (cycle_start st)
      \<and> loading (settled c) = False
      \<and> (r = Answer True data \<longrightarrow> weather (settled c) = data \<and> error (settled c) = None)
      \<and> (r = Answer False (Some b) \<and> message_of b = Some m \<and> m \<noteq> [] \<longrightarrow>
           weather (settled c) = None \<and> error (settled c) = Some m)
      \<and> (r = Answer False (Some b) \<and> (message_of b = None \<or> message_of b = Some []) \<longrightarrow>
           weather (settled c) = None \<and> error (settled c) = Some coords_failed)
      \<and> (r \<in> {Request_rejected, Body_rejected, Answer False None} \<longrightarrow>
           weather (settled c) = None \<and> error (settled c) = Some unexpected_error)"
    unfolding Let_def
    using c(1) c(3) c(4) [where data = data] c(5) [where b = b and m = m] c(6) [where b = b] c(7)
      by blast
  have 2: "let c = fetchWeatherByCity cityName net st; r = net (proxy_url_by_city cityName) in
          pending c = Some (cycle_start st)
        \<and> loading (settled c) = False
        \<and> (r = Answer True data \<longrightarrow> weather (settled c) = data \<and> error (settled c) = None)
        \<and> (r = Answer False (Some b) \<and> message_of b = Some m \<and> m \<noteq> [] \<longrightarrow>
             weather (settled c) = None \<and> error (settled c) = Some m)
        \<and> (r = Answer False (Some b) \<and> (message_of b = None \<or> message_of b = Some []) \<longrightarrow>
             weather (settled c) = None \<and> error (settled c) = Some city_failed)
        \<and> (r \<in> {Request_rejected, Body_rejected, Answer False None} \<longrightarrow>
             weather (settled c) = None \<and> error (settled c) = Some unexpected_error)"
    if ne: "cityName \<noteq> []"
  proof -
    note d = city_cycle [OF ne, where net = net and st = st]
    show ?thesis
      unfolding Let_def
      using d(1) d(3) d(4) [where data = data] d(5) [where b = b and m = m] d(6) [where b = b] d(7)
      by blast
  qed
  from s 1 2 show ?thesis by blast
qed

theorem fetch_cycle_witness:
  "pending (fetchWeatherByCoords 37.57 126.98
       (proxy_answers (Answer True (Some (Data (sample_data (Some 200) None))))) idle_view) =
     Some (idle_view\<lparr>loading := True, error := None, weather := None\<rparr>)
   \<and> settled (fetchWeatherByCoords 37.57 126.98
       (proxy_answers (Answer True (Some (Data (sample_data (Some 200) None))))) idle_view) =
     idle_view\<lparr>weather := Some (Data (sample_data (Some 200) None)), error := None\<rparr>
   \<and> error (settled (fetchWeatherByCoords 37.57 126.98
       (proxy_answers (Answer False (Some (Message ''city not found'')))) idle_view)) =
     Some ''city not found''
   \<and> error (settled (fetchWeatherByCoords 37.57 126.98
       (proxy_answers (Answer False (Some (Message [])))) idle_view)) = Some coords_failed
   \<and> error (settled (fetchWeatherByCoords 37.57 126.98
       (proxy_answers Request_rejected) idle_view)) = Some unexpected_error
   \<and> loading (settled (fetchWeatherByCoords 37.57 126.98
       (proxy_answers Request_rejected) idle_view)) = False
   \<and> weather (settled (fetchWeatherByCity ''Seoul''
       (proxy_answers (Answer True (Some (Data (sample_data (Some 200) None))))) idle_view)) =
     Some (Data (sample_data (Some 200) None))
   \<and> error (settled (fetchWeatherByCity ''Seoul''
       (proxy_answers (Answer False (Some (Message ''city not found'')))) idle_view)) =
     Some ''city not found''
   \<and> error (settled (fetchWeatherByCity ''Seoul''
       (proxy_answers (Answer False (Some (Data (sample_data (Some 404) None))))) idle_view)) =
     Some city_failed
   \<and> error (settled (fetchWeatherByCity ''Seoul''
       (proxy_answers Body_rejected) idle_view)) = Some unexpected_error
   \<and> loading (settled (fetchWeatherByCity ''Seoul''
       (proxy_answers Body_rejected) idle_view)) = False"
proof -
  let ?ok = "Answer True (Some (Data (sample_data (Some 200) None)))"
  let ?msg = "Answer False (Some (Message ''city not found''))"
  let ?empty = "Answer False (Some (Message []))"
  let ?nomsg = "Answer False (Some (Data (sample_data (Some 404) None)))"
  have n: "''Seoul'' \<noteq> []" by simp
  have m: "message_of (Data (sample_data (Some 404) None)) = None"
    by (simp add: sample_data_def)
  have 1: "pending (fetchWeatherByCoords 37.57 126.98 (proxy_answers ?ok) idle_view) =
      Some (idle_view\<lparr>loading := True, error := None, weather := None\<rparr>)
    \<and> weather (settled (fetchWeatherByCoords 37.57 126.98 (proxy_answers ?ok) idle_view)) =
        Some (Data (sample_data (Some 200) None))
    \<and> error (settled (fetchWeatherByCoords 37.57 126.98 (proxy_answers ?ok) idle_view)) = None"
    using fetch_cycle [where st = idle_view and la = "37.57" and lo = "126.98"
        and net = "proxy_answers ?ok" and data = "Some (Data (sample_data (Some 200) None))"]
    by (simp add: Let_def proxy_answers_def cycle_start_def)
  have 2: "error (settled (fetchWeatherByCoords 37.57 126.98 (proxy_answers ?msg) idle_view)) =
      Some ''city not found''"
    using fetch_cycle [where st = idle_view and la = "37.57" and lo = "126.98"
        and net = "proxy_answers ?msg" and b = "Message ''city not found''"
        and m = "''city not found''"]
    by (simp add: Let_def proxy_answers_def)
  have 3: "error (settled (fetchWeatherByCoords 37.57 126.98 (proxy_answers ?empty) idle_view)) =
      Some coords_failed"
    using fetch_cycle [where st = idle_view and la = "37.57" and lo = "126.98"
        and net = "proxy_answers ?empty" and b = "Message []"]
    by (simp add: Let_def proxy_answers_def)
  have 4: "error (settled (fetchWeatherByCoords 37.57 126.98
          (proxy_answers Request_rejected) idle_view)) = Some unexpected_error
    \<and> loading (settled (fetchWeatherByCoords 37.57 126.98
          (proxy_answers Request_rejected) idle_view)) = False"
    using fetch_cycle [where st = idle_view and la = "37.57" and lo = "126.98"
        and net = "proxy_answers Request_rejected"]
    by (simp add: Let_def proxy_answers_def)
  have 5: "weather (settled (fetchWeatherByCity ''Seoul'' (proxy_answers ?ok) idle_view)) =
      Some (Data (sample_data (Some 200) None))"
    using n fetch_cycle [where st = idle_view and net = "proxy_answers ?ok"
        and data = "Some (Data (sample_data (Some 200) None))" and cityName = "''Seoul''"]
    by (simp add: Let_def proxy_answers_def)
  have 6: "error (settled (fetchWeatherByCity ''Seoul'' (proxy_answers ?msg) idle_view)) =
      Some ''city not found''"
    using n fetch_cycle [where st = idle_view and net = "proxy_answers ?msg"
        and b = "Message ''city not found''" and m = "''city not found''"
        and cityName = "''Seoul''"]
    by (simp add: Let_def proxy_answers_def)
  have 7: "error (settled (fetchWeatherByCity ''Seoul'' (proxy_answers ?nomsg) idle_view)) =
      Some city_failed"
    using n m fetch_cycle [where st = idle_view and net = "proxy_answers ?nomsg"
        and b = "Data (sample_data (Some 404) None)" and cityName = "''Seoul''"]
    by (simp add: Let_def proxy_answers_def)
  have 8: "error (settled (fetchWeatherByCity ''Seoul''
          (proxy_answers Body_rejected) idle_view)) = Some unexpected_error
    \<and> loading (settled (fetchWeatherByCity ''Seoul''
          (proxy_answers Body_rejected) idle_view)) = False"
    using n fetch_cycle [where st = idle_view and net = "proxy_answers Body_rejected"
        and cityName = "''Seoul''"]
    by (simp add: Let_def proxy_answers_def)
  have 9: "settled (fetchWeatherByCoords 37.57 126.98 (proxy_answers ?ok) idle_view) =
     idle_view\<lparr>weather := Some (Data (sample_data (Some 200) None)), error := None\<rparr>"
    by (simp add: fetchWeatherByCoords_def Let_def catch_finally_def cycle_start_def
        proxy_answers_def idle_view_def)
  from 1 2 3 4 5 6 7 8 9 show ?thesis by simp
qed

text \<open>
  Claim C10: \<open>fetchWeatherByCity\<close> called with the empty name returns at once: it requests
  nothing and leaves the state as it was; so does \<open>handleSearch\<close> when the city of the form
  is empty.
\<close>

theorem empty_city_is_a_no_op:
  "fetchWeatherByCity [] net st = \<lparr>pending = None, settled = st, requested = []\<rparr>
   \<and> (city st = [] \<longrightarrow>
        settled (handleSearch net st) = st
      \<and> requested (handleSearch net st) = []
      \<and> pending (handleSearch net st) = None)"
  by (simp add: handleSearch_def fetchWeatherByCity_def)

theorem empty_city_is_a_no_op_witness:
  "city idle_view = []
   \<and> settled (handleSearch (proxy_answers Request_rejected) idle_view) = idle_view
   \<and> requested (handleSearch (proxy_answers Request_rejected) idle_view) = []
   \<and> pending (handleSearch (proxy_answers Request_rejected) idle_view) = None"
proof -
  have e: "city idle_view = []" by (simp add: idle_view_def)
  with empty_city_is_a_no_op [of "proxy_answers Request_rejected" idle_view]
  show ?thesis by simp
qed

end
